theory Spec2Isabelle
  imports Main
begin

section \<open>Remote command execution over SSH (remcmd.py)\<close>

text \<open>
  The module keeps one class, \<open>RemoteCommand\<close>, around a Fabric connection. The
  connection, the remote shell and the console are outside the module; they are
  modelled as an explicit \<open>world\<close> that every method takes and returns. Python
  strings are modelled as \<open>string\<close>, each \<open>char\<close> read as a code point below 256.
  Exceptions are values: every method returns \<open>exn + 'a\<close> together with the object
  and the world as they are when the method returns or raises.
\<close>

subsection \<open>Python string primitives used by the module\<close>

abbreviation NL :: char where
  "NL \<equiv> CHR 0x0A"

text \<open>\<open>s.split('\n')\<close>: the pieces between newlines; never an empty list.\<close>

fun split_nl :: "string \<Rightarrow> string list" where
  "split_nl [] = [[]]"
| "split_nl (c # cs) =
     (if c = NL then [] # split_nl cs
      else (c # hd (split_nl cs)) # tl (split_nl cs))"

text \<open>\<open>"\n".join(ls)\<close>.\<close>

fun join_nl :: "string list \<Rightarrow> string" where
  "join_nl [] = []"
| "join_nl [l] = l"
| "join_nl (l # m # ls) = l @ NL # join_nl (m # ls)"

text \<open>
  \<open>int(s)\<close> in base 10: surrounding whitespace is stripped, one sign is allowed,
  then decimal digits, single underscores allowed between digits only. The
  whitespace of \<open>int\<close> below code point 256 is tab, line feed, vertical tab, form
  feed, carriage return, space, NEL (0x85) and no-break space (0xA0). \<open>None\<close> stands
  for \<open>ValueError\<close>. The interpreter's optional cap on the number of digits is a
  resource limit outside the model.
\<close>

definition py_isspace :: "char \<Rightarrow> bool" where
  "py_isspace c =
     (c \<in> set [CHR 0x09, CHR 0x0A, CHR 0x0B, CHR 0x0C, CHR 0x0D, CHR 0x20, CHR 0x85, CHR 0xA0])"

definition digit_val :: "char \<Rightarrow> int option" where
  "digit_val c =
     map_of [(CHR ''0'', 0), (CHR ''1'', 1), (CHR ''2'', 2), (CHR ''3'', 3), (CHR ''4'', 4),
             (CHR ''5'', 5), (CHR ''6'', 6), (CHR ''7'', 7), (CHR ''8'', 8), (CHR ''9'', 9)] c"

fun parse_digits :: "int \<Rightarrow> bool \<Rightarrow> string \<Rightarrow> int option" where
  "parse_digits acc prev_digit [] = (if prev_digit then Some acc else None)"
| "parse_digits acc prev_digit (c # cs) =
     (if c = CHR ''_'' then
        (if prev_digit then parse_digits acc False cs else None)
      else
        (case digit_val c of
           None \<Rightarrow> None
         | Some d \<Rightarrow> parse_digits (10 * acc + d) True cs))"

definition py_strip :: "string \<Rightarrow> string" where
  "py_strip s = rev (dropWhile py_isspace (rev (dropWhile py_isspace s)))"

definition py_int :: "string \<Rightarrow> int option" where
  "py_int s =
     (case py_strip s of
        [] \<Rightarrow> None
      | c # cs \<Rightarrow>
          if c = CHR ''-'' then map_option uminus (parse_digits 0 False cs)
          else if c = CHR ''+'' then parse_digits 0 False cs
          else parse_digits 0 False (c # cs))"

text \<open>\<open>str(n)\<close> for an integer: decimal digits, a leading minus when negative.\<close>

fun digits_of :: "nat \<Rightarrow> string" where
  "digits_of n =
     (if n < 10 then [''0123456789'' ! n]
      else digits_of (n div 10) @ [''0123456789'' ! (n mod 10)])"

declare digits_of.simps [simp del]

definition py_str :: "int \<Rightarrow> string" where
  "py_str i = (if i < 0 then CHR ''-'' # digits_of (nat (- i)) else digits_of (nat i))"

subsection \<open>Exceptions\<close>

text \<open>
  The two exception classes the module catches come from the libraries:
  \<open>ssh_exception.SSHException\<close> and \<open>exceptions.UnexpectedExit\<close>; each carries the
  text \<open>str(e)\<close>. \<open>RemoteCommandException\<close> is the module's own class; its second
  field is the exception shown as its context: \<open>raise ... from None\<close> suppresses
  it, a plain \<open>raise\<close> inside an \<open>except\<close> block keeps it, a \<open>raise\<close> outside any
  handler has none. The remaining constructors are the built-in errors the
  methods can run into.
\<close>

datatype fault = SSHException string | UnexpectedExit string

fun fault_str :: "fault \<Rightarrow> string" where
  "fault_str (SSHException m) = m"
| "fault_str (UnexpectedExit m) = m"

datatype exn =
    RemoteCommandException string "fault option"
  | Uncaught fault
  | AttributeError
  | IndexError
  | ValueError
  | TypeError

subsection \<open>The collaborators: connection, remote results, console\<close>

text \<open>The module-level globals \<open>debug\<close> and \<open>print_statistic\<close>.\<close>

record flags =
  debug :: bool
  print_statistic :: bool

text \<open>How \<open>main\<close> sets the globals from the \<open>-v\<close> count.\<close>

definition verbosity_flags :: "int \<Rightarrow> flags" where
  "verbosity_flags v =
     (if v \<ge> 2 then \<lparr>debug = True, print_statistic = True\<rparr>
      else if v \<ge> 1 then \<lparr>debug = False, print_statistic = True\<rparr>
      else \<lparr>debug = False, print_statistic = False\<rparr>)"

text \<open>\<open>connection.Connection(ssh_host, user=ssh_user, connect_kwargs=...)\<close>.\<close>

record connection =
  conn_host :: string
  conn_user :: string
  connect_kwargs :: "(string \<times> string) list"

text \<open>The attributes of a Fabric result that the module reads.\<close>

record cmd_result =
  stdout :: string
  stderr :: string
  ok :: bool
  return_code :: int

datatype reply = Returns cmd_result | Raises fault

text \<open>One call \<open>client.run(text, hide=h)\<close>: the connection, the text, the flag.\<close>

type_synonym call = "connection \<times> string \<times> bool"

text \<open>
  The world outside the object: how the remote side answers a call given the
  calls made before it, the calls made so far, and the lines printed so far.
\<close>

record world =
  respond :: "call list \<Rightarrow> call \<Rightarrow> reply"
  sent :: "call list"
  console :: "string list"

definition client_run :: "connection \<Rightarrow> string \<Rightarrow> bool \<Rightarrow> world \<Rightarrow> reply \<times> world" where
  "client_run c text hide w =
     (respond w (sent w) (c, text, hide), w\<lparr>sent := sent w @ [(c, text, hide)]\<rparr>)"

definition print_line :: "string \<Rightarrow> world \<Rightarrow> world" where
  "print_line s w = w\<lparr>console := console w @ [s]\<rparr>"

definition narrate :: "flags \<Rightarrow> string \<Rightarrow> world \<Rightarrow> world" where
  "narrate fl s w = (if print_statistic fl then print_line s w else w)"

text \<open>
  \<open>text + n\<close> with \<open>text\<close> a \<open>str\<close> and \<open>n\<close> an \<open>int\<close>: Python refuses to
  concatenate and raises \<open>TypeError\<close>.
\<close>

definition str_plus_int :: "string \<Rightarrow> int \<Rightarrow> exn + string" where
  "str_plus_int s n = Inl TypeError"

subsection \<open>The class RemoteCommand\<close>

record remote_command =
  command :: string
  ssh_host :: string
  ssh_user :: string
  ssh_password :: "string option"
  client :: connection
  result :: "cmd_result option"
  kill :: "cmd_result option"

type_synonym 'a outcome = "(exn + 'a) \<times> remote_command \<times> world"

text \<open>\<open>__init__\<close>: stores the parameters, creates the connection, prints when asked.\<close>

definition RemoteCommand ::
  "flags \<Rightarrow> string \<Rightarrow> string \<Rightarrow> string \<Rightarrow> string option \<Rightarrow> world \<Rightarrow> remote_command \<times> world" where
  "RemoteCommand fl cmd host user password w =
     (let connect_options = (case password of None \<Rightarrow> [] | Some p \<Rightarrow> [(''password'', p)]);
          self = \<lparr>command = cmd, ssh_host = host, ssh_user = user, ssh_password = password,
                  client = \<lparr>conn_host = host, conn_user = user,
                            connect_kwargs = connect_options\<rparr>,
                  result = None, kill = None\<rparr>
      in (self, narrate fl (''Connect to host: '' @ host @ NL # ''With user: '' @ user) w))"

text \<open>
  \<open>run\<close>: the optional print and the call are inside the \<open>try\<close>; only
  \<open>SSHException\<close> is caught there. The assignment to \<open>self.result\<close> happens only
  when the call returns, and before the check of \<open>ok\<close>.
\<close>

definition run :: "flags \<Rightarrow> remote_command \<Rightarrow> world \<Rightarrow> unit outcome" where
  "run fl self w =
     (let w1 = narrate fl (''Run command: '' @ command self) w;
          (rep, w2) = client_run (client self) (command self @ '' & echo $!'') True w1
      in case rep of
           Raises (SSHException e) \<Rightarrow>
             (Inl (RemoteCommandException e
                     (if debug fl then Some (SSHException e) else None)), self, w2)
         | Raises (UnexpectedExit e) \<Rightarrow> (Inl (Uncaught (UnexpectedExit e)), self, w2)
         | Returns r \<Rightarrow>
             (let self1 = self\<lparr>result := Some r\<rparr>
              in if \<not> ok r then (Inl (RemoteCommandException (stderr r) None), self1, w2)
                 else (Inr (), self1, w2)))"

text \<open>
  \<open>get_pid\<close>: \<open>self.result.stdout\<close> on \<open>None\<close> is an \<open>AttributeError\<close>; element 0
  of the split is read, printed when asked, and handed to \<open>int\<close>.
\<close>

definition get_pid :: "flags \<Rightarrow> remote_command \<Rightarrow> world \<Rightarrow> int outcome" where
  "get_pid fl self w =
     (case result self of
        None \<Rightarrow> (Inl AttributeError, self, w)
      | Some r \<Rightarrow>
          (case split_nl (stdout r) of
             [] \<Rightarrow> (Inl IndexError, self, w)
           | line # _ \<Rightarrow>
               (let w1 = narrate fl (''PID of process: '' @ line) w
                in case py_int line of
                     None \<Rightarrow> (Inl ValueError, self, w1)
                   | Some n \<Rightarrow> (Inr n, self, w1))))"

text \<open>
  \<open>terminate\<close>: the PID comes from \<open>get_pid\<close>; both library exceptions are caught
  around the kill; a kill that returns not \<open>ok\<close> raises with \<open>self.result.stderr\<close>;
  the final print concatenates a \<open>str\<close> with \<open>self.kill.return_code\<close>.
\<close>

definition terminate :: "flags \<Rightarrow> remote_command \<Rightarrow> world \<Rightarrow> unit outcome" where
  "terminate fl self w =
     (case get_pid fl self w of
        (Inl e, self0, w0) \<Rightarrow> (Inl e, self0, w0)
      | (Inr pid, self0, w0) \<Rightarrow>
          (let (rep, w1) = client_run (client self0) (''kill '' @ py_str pid) True w0
           in case rep of
                Raises f \<Rightarrow>
                  (Inl (RemoteCommandException (fault_str f)
                          (if debug fl then Some f else None)), self0, w1)
              | Returns k \<Rightarrow>
                  (let self1 = self0\<lparr>kill := Some k\<rparr>
                   in if \<not> ok k then
                        (case result self1 of
                           None \<Rightarrow> (Inl AttributeError, self1, w1)
                         | Some r \<Rightarrow> (Inl (RemoteCommandException (stderr r) None), self1, w1))
                      else if print_statistic fl then
                        (case str_plus_int
                                (''Process with '' @ py_str pid @ '' was killed with status '')
                                (return_code k) of
                           Inl e \<Rightarrow> (Inl e, self1, w1)
                         | Inr s \<Rightarrow> (Inr (), self1, print_line s w1))
                      else (Inr (), self1, w1))))"

text \<open>\<open>get_output\<close>: the split without its element 0, joined again.\<close>

definition get_output :: "flags \<Rightarrow> remote_command \<Rightarrow> world \<Rightarrow> string outcome" where
  "get_output fl self w =
     (case result self of
        None \<Rightarrow> (Inl AttributeError, self, w)
      | Some r \<Rightarrow>
          (let out = join_nl (drop 1 (split_nl (stdout r)))
           in (Inr out, self, narrate fl (''Execution output: '' @ out) w)))"

text \<open>\<open>get_exit_code\<close>.\<close>

definition get_exit_code :: "flags \<Rightarrow> remote_command \<Rightarrow> world \<Rightarrow> int outcome" where
  "get_exit_code fl self w =
     (case result self of
        None \<Rightarrow> (Inl AttributeError, self, w)
      | Some r \<Rightarrow>
          (Inr (return_code r), self,
           narrate fl (''Result code: '' @ py_str (return_code r)) w))"

subsection \<open>Concrete settings used to evaluate the methods\<close>

definition quiet :: flags where
  "quiet = \<lparr>debug = False, print_statistic = False\<rparr>"

definition chatty :: flags where
  "chatty = \<lparr>debug = False, print_statistic = True\<rparr>"

text \<open>
  A remote side that answers every \<open>kill ...\<close> text with one reply and every
  other text with another, with nothing sent or printed yet.
\<close>

definition scripted :: "reply \<Rightarrow> reply \<Rightarrow> world" where
  "scripted run_reply kill_reply =
     \<lparr>respond = (\<lambda>history (c, text, hide).
                   if take 5 text = ''kill '' then kill_reply else run_reply),
      sent = [], console = []\<rparr>"

text \<open>Replies of the remote side: to the wrapper invocation, and to the kill.\<close>

definition pid_result :: cmd_result where
  "pid_result = \<lparr>stdout = ''4242'' @ NL # ''hello'' @ [NL], stderr = ''no tty'',
                  ok = True, return_code = 0\<rparr>"

definition failed_result :: cmd_result where
  "failed_result = \<lparr>stdout = ''4242'' @ [NL], stderr = ''boom'',
                     ok = False, return_code = 3\<rparr>"

definition bare_result :: cmd_result where
  "bare_result = \<lparr>stdout = ''4242'', stderr = [], ok = True, return_code = 0\<rparr>"

definition banner_result :: cmd_result where
  "banner_result = \<lparr>stdout = ''hello'' @ NL # ''4242'' @ [NL], stderr = [],
                     ok = True, return_code = 0\<rparr>"

definition kill_ok :: cmd_result where
  "kill_ok = \<lparr>stdout = [], stderr = [], ok = True, return_code = 0\<rparr>"

definition kill_failed :: cmd_result where
  "kill_failed = \<lparr>stdout = [], stderr = ''No such process'',
                   ok = False, return_code = 1\<rparr>"

text \<open>A freshly constructed object, and \<open>run\<close> on it under several replies.\<close>

definition fresh :: remote_command where
  "fresh = fst (RemoteCommand quiet ''sleep 5'' ''10.0.0.1'' ''john'' None
                  (scripted (Returns pid_result) (Returns kill_ok)))"

definition after_good_run :: "unit outcome" where
  "after_good_run = run quiet fresh (scripted (Returns pid_result) (Returns kill_ok))"

definition after_failed_run :: "unit outcome" where
  "after_failed_run = run quiet fresh (scripted (Returns failed_result) (Returns kill_ok))"

definition after_bare_run :: "unit outcome" where
  "after_bare_run = run quiet fresh (scripted (Returns bare_result) (Returns kill_ok))"

text \<open>
  A command list: the shell runs \<open>echo hello\<close> in the foreground, puts only
  \<open>sleep 5\<close> in the background and then echoes its PID, which is the reply
  \<open>banner_result\<close>.
\<close>

definition compound :: remote_command where
  "compound = fst (RemoteCommand quiet ''echo hello; sleep 5'' ''10.0.0.1'' ''john'' None
                     (scripted (Returns banner_result) (Returns kill_ok)))"

definition after_compound_run :: "unit outcome" where
  "after_compound_run =
     run quiet compound (scripted (Returns banner_result) (Returns kill_ok))"

definition after_run_kill_exits :: "unit outcome" where
  "after_run_kill_exits =
     run quiet fresh (scripted (Returns pid_result)
                               (Raises (UnexpectedExit ''bad exit code: 1'')))"

text \<open>The session raising Invoke's exception for a wrapper that exits with non-zero status.\<close>

definition after_unexpected_exit :: "unit outcome" where
  "after_unexpected_exit =
     run quiet fresh (scripted (Raises (UnexpectedExit ''bad exit code: 2''))
                               (Returns kill_ok))"

definition after_run_kill_fails :: "unit outcome" where
  "after_run_kill_fails =
     run quiet fresh (scripted (Returns pid_result) (Returns kill_failed))"

text \<open>
  The same run, with the session reporting the failed kill the way Fabric does
  unless told otherwise: by raising \<open>UnexpectedExit\<close>, whose text names the exit
  code and the standard error of the kill.
\<close>

definition after_run_kill_raises :: "unit outcome" where
  "after_run_kill_raises =
     run quiet fresh (scripted (Returns pid_result)
                               (Raises (UnexpectedExit ''kill 4242: exit 1: No such process'')))"

section \<open>Properties\<close>

subsection \<open>Splitting and joining lines\<close>

lemma split_nl_not_Nil: "split_nl s \<noteq> []"
  by (induction s) auto

lemma split_nl_hd_tl: "hd (split_nl s) # tl (split_nl s) = split_nl s"
  by (simp add: split_nl_not_Nil)

lemma join_nl_Cons: "ls \<noteq> [] \<Longrightarrow> join_nl (l # ls) = l @ NL # join_nl ls"
  by (cases ls) auto

lemma join_split_nl: "join_nl (split_nl s) = s"
proof (induction s)
  case Nil
  show ?case by simp
next
  case (Cons c cs)
  show ?case
  proof (cases "c = NL")
    case True
    with Cons show ?thesis by (simp add: join_nl_Cons split_nl_not_Nil)
  next
    case False
    obtain l ls where sp: "split_nl cs = l # ls"
      using split_nl_not_Nil [of cs] by (cases "split_nl cs") auto
    with Cons False show ?thesis by (cases ls) auto
  qed
qed

lemma tl_split_nl_Nil: "(tl (split_nl s) = []) = (NL \<notin> set s)"
  by (induction s) (auto simp: split_nl_not_Nil)

lemma split_nl_no_newline: "NL \<notin> set s \<Longrightarrow> split_nl s = [s]"
  by (induction s) auto

lemma split_nl_lines: "l \<in> set (split_nl s) \<Longrightarrow> NL \<notin> set l"
proof (induction s arbitrary: l)
  case Nil
  then show ?case by simp
next
  case (Cons c cs)
  obtain m ms where sp: "split_nl cs = m # ms"
    using split_nl_not_Nil [of cs] by (cases "split_nl cs") auto
  have m: "NL \<notin> set m" and ms: "\<And>x. x \<in> set ms \<Longrightarrow> NL \<notin> set x"
    using Cons.IH sp by auto
  show ?case
  proof (cases "c = NL")
    case True
    with Cons.prems sp m ms show ?thesis by auto
  next
    case False
    with Cons.prems sp m ms show ?thesis by auto
  qed
qed

lemma split_nl_append_line:
  "NL \<notin> set l \<Longrightarrow> split_nl (l @ NL # s) = l # split_nl s"
  by (induction l) auto

lemma split_join_nl:
  "ls \<noteq> [] \<Longrightarrow> (\<And>l. l \<in> set ls \<Longrightarrow> NL \<notin> set l) \<Longrightarrow> split_nl (join_nl ls) = ls"
proof (induction ls rule: join_nl.induct)
  case 1
  then show ?case by simp
next
  case (2 l)
  then show ?case by (simp add: split_nl_no_newline)
next
  case (3 l m ls)
  then show ?case by (simp add: split_nl_append_line)
qed

lemma narrate_sent: "sent (narrate fl s w) = sent w"
  by (simp add: narrate_def print_line_def)

lemma narrate_respond: "respond (narrate fl s w) = respond w"
  by (simp add: narrate_def print_line_def)

subsection \<open>What each method computes\<close>

lemma fresh_simps:
  "result fresh = None" "kill fresh = None" "command fresh = ''sleep 5''"
  "client fresh = \<lparr>conn_host = ''10.0.0.1'', conn_user = ''john'', connect_kwargs = []\<rparr>"
  by (simp_all add: fresh_def RemoteCommand_def Let_def)

lemmas int_defs = py_int_def py_strip_def py_isspace_def digit_val_def py_str_def
  digits_of.simps

lemma client_run_sent:
  "snd (client_run c text hide w) = w\<lparr>sent := sent w @ [(c, text, hide)]\<rparr>"
  by (simp add: client_run_def)

lemma run_sent:
  "sent (snd (snd (run fl self w))) =
     sent w @ [(client self, command self @ '' & echo $!'', True)]"
  by (simp add: run_def client_run_def Let_def narrate_sent split: reply.splits fault.splits)

lemma run_success:
  assumes "fst (run fl self w) = Inr ()"
  shows "\<exists>r. respond w (sent w) (client self, command self @ '' & echo $!'', True) = Returns r
           \<and> ok r \<and> result (fst (snd (run fl self w))) = Some r"
  using assms
  by (auto simp: run_def client_run_def Let_def narrate_sent narrate_respond
      split: reply.splits fault.splits if_splits)

lemma get_pid_stored:
  "result self = Some r \<Longrightarrow>
   fst (get_pid fl self w) =
     (case py_int (hd (split_nl (stdout r))) of None \<Rightarrow> Inl ValueError | Some n \<Rightarrow> Inr n)"
  using split_nl_not_Nil [of "stdout r"]
  by (auto simp: get_pid_def Let_def split: list.splits option.splits)

lemma get_output_stored:
  "result self = Some r \<Longrightarrow>
   fst (get_output fl self w) = Inr (join_nl (tl (split_nl (stdout r))))"
  by (simp add: get_output_def Let_def drop_Suc)

lemma get_exit_code_stored:
  "result self = Some r \<Longrightarrow> fst (get_exit_code fl self w) = Inr (return_code r)"
  by (simp add: get_exit_code_def)

lemma run_outcome:
  "fst (run fl self w) =
     (case respond w (sent w) (client self, command self @ '' & echo $!'', True) of
        Raises (SSHException e) \<Rightarrow>
          Inl (RemoteCommandException e (if debug fl then Some (SSHException e) else None))
      | Raises (UnexpectedExit e) \<Rightarrow> Inl (Uncaught (UnexpectedExit e))
      | Returns r \<Rightarrow> if ok r then Inr () else Inl (RemoteCommandException (stderr r) None))"
  by (simp add: run_def client_run_def Let_def narrate_sent narrate_respond
      split: reply.splits fault.splits)

lemma run_result:
  "result (fst (snd (run fl self w))) =
     (case respond w (sent w) (client self, command self @ '' & echo $!'', True) of
        Raises f \<Rightarrow> result self
      | Returns r \<Rightarrow> Some r)"
  by (simp add: run_def client_run_def Let_def narrate_sent narrate_respond
      split: reply.splits fault.splits)

lemma get_pid_world:
  "sent (snd (snd (get_pid fl self w))) = sent w"
  "respond (snd (snd (get_pid fl self w))) = respond w"
  "fst (snd (get_pid fl self w)) = self"
  by (simp_all add: get_pid_def Let_def narrate_sent narrate_respond
      split: option.splits list.splits)

lemma terminate_no_pid:
  assumes "fst (get_pid fl self w) = Inl e"
  shows "terminate fl self w = (Inl e, self, snd (snd (get_pid fl self w)))"
proof (cases "get_pid fl self w")
  case (fields res self0 w0)
  with assms get_pid_world(3) [of fl self w] show ?thesis
    by (simp add: terminate_def)
qed

lemma terminate_with_pid:
  assumes "result self = Some r" and "fst (get_pid fl self w) = Inr pid"
  shows "fst (terminate fl self w) =
     (case respond w (sent w) (client self, ''kill '' @ py_str pid, True) of
        Raises f \<Rightarrow>
          Inl (RemoteCommandException (fault_str f) (if debug fl then Some f else None))
      | Returns k \<Rightarrow>
          if \<not> ok k then Inl (RemoteCommandException (stderr r) None)
          else if print_statistic fl then Inl TypeError
          else Inr ())"
    and "kill (fst (snd (terminate fl self w))) =
     (case respond w (sent w) (client self, ''kill '' @ py_str pid, True) of
        Raises f \<Rightarrow> kill self
      | Returns k \<Rightarrow> Some k)"
    and "sent (snd (snd (terminate fl self w))) =
           sent w @ [(client self, ''kill '' @ py_str pid, True)]"
proof -
  obtain w0 where gp: "get_pid fl self w = (Inr pid, self, w0)"
    using assms(2) get_pid_world(3) [of fl self w] by (cases "get_pid fl self w") auto
  have w0: "sent w0 = sent w" "respond w0 = respond w"
    using get_pid_world(1,2) [of fl self w] gp by simp_all
  show "fst (terminate fl self w) =
     (case respond w (sent w) (client self, ''kill '' @ py_str pid, True) of
        Raises f \<Rightarrow>
          Inl (RemoteCommandException (fault_str f) (if debug fl then Some f else None))
      | Returns k \<Rightarrow>
          if \<not> ok k then Inl (RemoteCommandException (stderr r) None)
          else if print_statistic fl then Inl TypeError
          else Inr ())"
    using assms(1) gp w0
    by (simp add: terminate_def client_run_def Let_def str_plus_int_def split: reply.splits)
  show "kill (fst (snd (terminate fl self w))) =
     (case respond w (sent w) (client self, ''kill '' @ py_str pid, True) of
        Raises f \<Rightarrow> kill self
      | Returns k \<Rightarrow> Some k)"
    using assms(1) gp w0
    by (simp add: terminate_def client_run_def Let_def str_plus_int_def split: reply.splits)
  show "sent (snd (snd (terminate fl self w))) =
           sent w @ [(client self, ''kill '' @ py_str pid, True)]"
    using assms(1) gp w0
    by (simp add: terminate_def client_run_def Let_def str_plus_int_def split: reply.splits)
qed


lemma no_result_accessors:
  assumes "result self = None"
  shows "get_pid fl self w = (Inl AttributeError, self, w)"
    and "get_output fl self w = (Inl AttributeError, self, w)"
    and "get_exit_code fl self w = (Inl AttributeError, self, w)"
  using assms by (simp_all add: get_pid_def get_output_def get_exit_code_def)


lemma terminate_without_result:
  "result self = None \<Longrightarrow> terminate fl self w = (Inl AttributeError, self, w)"
  by (simp add: terminate_no_pid [of fl self w AttributeError] no_result_accessors(1))

subsection \<open>The concrete settings, evaluated\<close>

lemma fresh_eval:
  "fresh = \<lparr>command = ''sleep 5'', ssh_host = ''10.0.0.1'', ssh_user = ''john'',
             ssh_password = None,
             client = \<lparr>conn_host = ''10.0.0.1'', conn_user = ''john'', connect_kwargs = []\<rparr>,
             result = None, kill = None\<rparr>"
  by (simp add: fresh_def RemoteCommand_def Let_def)

lemma compound_eval:
  "compound = \<lparr>command = ''echo hello; sleep 5'', ssh_host = ''10.0.0.1'', ssh_user = ''john'',
             ssh_password = None,
             client = \<lparr>conn_host = ''10.0.0.1'', conn_user = ''john'', connect_kwargs = []\<rparr>,
             result = None, kill = None\<rparr>"
  by (simp add: compound_def RemoteCommand_def Let_def)

lemma scripted_respond:
  "respond (scripted a b) h (c, text, hide) = (if take 5 text = ''kill '' then b else a)"
  "sent (scripted a b) = []" "console (scripted a b) = []"
  by (simp_all add: scripted_def)

lemma after_good_run_eval:
  "fst after_good_run = Inr ()"
  "fst (snd after_good_run) = fresh\<lparr>result := Some pid_result\<rparr>"
  "sent (snd (snd after_good_run)) = [(client fresh, ''sleep 5 & echo $!'', True)]"
  "respond (snd (snd after_good_run)) = respond (scripted (Returns pid_result) (Returns kill_ok))"
  "console (snd (snd after_good_run)) = []"
  by (simp_all add: after_good_run_def run_def client_run_def narrate_def Let_def
      scripted_def quiet_def fresh_eval pid_result_def)

lemma after_failed_run_eval:
  "fst after_failed_run = Inl (RemoteCommandException ''boom'' None)"
  "fst (snd after_failed_run) = fresh\<lparr>result := Some failed_result\<rparr>"
  "sent (snd (snd after_failed_run)) = [(client fresh, ''sleep 5 & echo $!'', True)]"
  "respond (snd (snd after_failed_run)) = respond (scripted (Returns failed_result) (Returns kill_ok))"
  by (simp_all add: after_failed_run_def run_def client_run_def narrate_def Let_def
      scripted_def quiet_def fresh_eval failed_result_def)

lemma after_bare_run_eval:
  "fst after_bare_run = Inr ()"
  "fst (snd after_bare_run) = fresh\<lparr>result := Some bare_result\<rparr>"
  by (simp_all add: after_bare_run_def run_def client_run_def narrate_def Let_def
      scripted_def quiet_def fresh_eval bare_result_def)

lemma after_compound_run_eval:
  "fst after_compound_run = Inr ()"
  "fst (snd after_compound_run) = compound\<lparr>result := Some banner_result\<rparr>"
  "sent (snd (snd after_compound_run)) =
     [(client compound, ''echo hello; sleep 5 & echo $!'', True)]"
  by (simp_all add: after_compound_run_def run_def client_run_def narrate_def Let_def
      scripted_def quiet_def compound_eval banner_result_def)

lemma after_run_kill_fails_eval:
  "fst after_run_kill_fails = Inr ()"
  "fst (snd after_run_kill_fails) = fresh\<lparr>result := Some pid_result\<rparr>"
  "sent (snd (snd after_run_kill_fails)) = [(client fresh, ''sleep 5 & echo $!'', True)]"
  "respond (snd (snd after_run_kill_fails)) =
     respond (scripted (Returns pid_result) (Returns kill_failed))"
  by (simp_all add: after_run_kill_fails_def run_def client_run_def narrate_def Let_def
      scripted_def quiet_def fresh_eval pid_result_def)

lemma after_unexpected_exit_eval:
  "fst after_unexpected_exit = Inl (Uncaught (UnexpectedExit ''bad exit code: 2''))"
  "fst (snd after_unexpected_exit) = fresh"
  by (simp_all add: after_unexpected_exit_def run_def client_run_def narrate_def Let_def
      scripted_def quiet_def fresh_eval)

lemma sample_lines:
  "split_nl (stdout pid_result) = [''4242'', ''hello'', []]"
  "split_nl (stdout failed_result) = [''4242'', []]"
  "split_nl (stdout bare_result) = [''4242'']"
  "split_nl (stdout banner_result) = [''hello'', ''4242'', []]"
  by (simp_all add: pid_result_def failed_result_def bare_result_def banner_result_def)

lemma sample_ints:
  "py_int ''4242'' = Some 4242" "py_int ''hello'' = None" "py_str 4242 = ''4242''"
  by (simp_all add: int_defs)

lemma after_run_kill_exits_eval:
  "fst after_run_kill_exits = Inr ()"
  "fst (snd after_run_kill_exits) = fresh\<lparr>result := Some pid_result\<rparr>"
  "sent (snd (snd after_run_kill_exits)) = [(client fresh, ''sleep 5 & echo $!'', True)]"
  "respond (snd (snd after_run_kill_exits)) =
     respond (scripted (Returns pid_result) (Raises (UnexpectedExit ''bad exit code: 1'')))"
  by (simp_all add: after_run_kill_exits_def run_def client_run_def narrate_def Let_def
      scripted_def quiet_def fresh_eval pid_result_def)


lemma after_run_kill_raises_eval:
  "fst after_run_kill_raises = Inr ()"
  "fst (snd after_run_kill_raises) = fresh\<lparr>result := Some pid_result\<rparr>"
  "sent (snd (snd after_run_kill_raises)) = [(client fresh, ''sleep 5 & echo $!'', True)]"
  "respond (snd (snd after_run_kill_raises)) =
     respond (scripted (Returns pid_result)
                (Raises (UnexpectedExit ''kill 4242: exit 1: No such process'')))"
  by (simp_all add: after_run_kill_raises_def run_def client_run_def narrate_def Let_def
      scripted_def quiet_def fresh_eval pid_result_def)

lemma verbosity_flags_eval:
  "verbosity_flags 0 = \<lparr>debug = False, print_statistic = False\<rparr>"
  "verbosity_flags 1 = \<lparr>debug = False, print_statistic = True\<rparr>"
  "verbosity_flags 2 = \<lparr>debug = True, print_statistic = True\<rparr>"
  by (simp_all add: verbosity_flags_def)


section \<open>The claims\<close>

subsection \<open>C1: what \<open>run\<close> submits, and what line 1 then is\<close>

text \<open>
  C1. \<open>run\<close> always submits the stored command followed by \<open> & echo $!\<close>, with
  \<open>hide=True\<close> (lemma \<open>run_sent\<close>), and on success the stored result is the reply to
  that text (lemma \<open>run_success\<close>). That line 1 of the reply is the PID does not
  follow for every command: for the command \<open>echo hello; sleep 5\<close> the text
  submitted is \<open>echo hello; sleep 5 & echo $!\<close>, the reply starts with the line
  \<open>hello\<close>, \<open>run\<close> succeeds, \<open>get_pid\<close> raises \<open>ValueError\<close> and \<open>get_output\<close> returns
  the PID line.
\<close>

theorem compound_command_first_line:
  "fst after_compound_run = Inr ()
   \<and> sent (snd (snd after_compound_run)) =
       [(client compound, ''echo hello; sleep 5 & echo $!'', True)]
   \<and> result (fst (snd after_compound_run)) = Some banner_result
   \<and> fst (get_pid quiet (fst (snd after_compound_run)) (snd (snd after_compound_run))) =
       Inl ValueError
   \<and> fst (get_output quiet (fst (snd after_compound_run)) (snd (snd after_compound_run))) =
       Inr (''4242'' @ [NL])"
  by (simp add: after_compound_run_eval get_pid_stored get_output_stored sample_lines
      sample_ints)

subsection \<open>C2: \<open>get_output\<close> and the first line\<close>

text \<open>
  C2, as stated, fails for a captured output without a newline: after a
  successful run whose output is \<open>4242\<close>, line 1 is \<open>4242\<close>, \<open>get_output\<close> returns
  the empty string, and line 1, a newline and \<open>get_output()\<close> together are not
  the captured output.
\<close>

theorem bare_output_roundtrip_fails:
  "fst after_bare_run = Inr ()
   \<and> result (fst (snd after_bare_run)) = Some bare_result
   \<and> hd (split_nl (stdout bare_result)) = ''4242''
   \<and> fst (get_output quiet (fst (snd after_bare_run)) (snd (snd after_bare_run))) = Inr []
   \<and> ''4242'' @ NL # [] \<noteq> stdout bare_result"
  by (simp add: after_bare_run_eval get_output_stored sample_lines) (simp add: bare_result_def)

text \<open>
  C2, amended. With a stored result, \<open>get_output\<close> returns the lines after line 1
  joined by newlines. When the captured output contains a newline, the lines of
  what \<open>get_output\<close> returns are exactly the lines after line 1, and line 1, a
  newline and \<open>get_output()\<close> together are the captured output. When it contains
  none, \<open>get_output\<close> returns the empty string and line 1 is the whole output.
\<close>

theorem get_output_lines:
  assumes "result self = Some r"
  shows "fst (get_output fl self w) = Inr (join_nl (tl (split_nl (stdout r))))
    \<and> (NL \<in> set (stdout r) \<longrightarrow>
         split_nl (join_nl (tl (split_nl (stdout r)))) = tl (split_nl (stdout r))
         \<and> hd (split_nl (stdout r)) @ NL # join_nl (tl (split_nl (stdout r))) = stdout r)
    \<and> (NL \<notin> set (stdout r) \<longrightarrow>
         join_nl (tl (split_nl (stdout r))) = [] \<and> hd (split_nl (stdout r)) = stdout r)"
proof (intro conjI impI)
  show "fst (get_output fl self w) = Inr (join_nl (tl (split_nl (stdout r))))"
    using assms by (rule get_output_stored)
next
  assume nl: "NL \<in> set (stdout r)"
  then have ne: "tl (split_nl (stdout r)) \<noteq> []"
    by (simp add: tl_split_nl_Nil)
  have "\<And>l. l \<in> set (tl (split_nl (stdout r))) \<Longrightarrow> NL \<notin> set l"
    using split_nl_lines [of _ "stdout r"] split_nl_not_Nil [of "stdout r"]
    by (metis list.set_sel(2))
  with ne show "split_nl (join_nl (tl (split_nl (stdout r)))) = tl (split_nl (stdout r))"
    by (rule split_join_nl)
  have "hd (split_nl (stdout r)) @ NL # join_nl (tl (split_nl (stdout r)))
          = join_nl (hd (split_nl (stdout r)) # tl (split_nl (stdout r)))"
    using ne by (simp add: join_nl_Cons)
  also have "\<dots> = stdout r"
    by (simp add: split_nl_hd_tl join_split_nl)
  finally show "hd (split_nl (stdout r)) @ NL # join_nl (tl (split_nl (stdout r))) = stdout r" .
next
  assume "NL \<notin> set (stdout r)"
  then show "join_nl (tl (split_nl (stdout r))) = []"
    by (simp add: split_nl_no_newline)
next
  assume "NL \<notin> set (stdout r)"
  then show "hd (split_nl (stdout r)) = stdout r"
    by (simp add: split_nl_no_newline)
qed

text \<open>C2, amended, at the outputs \<open>4242\nhello\n\<close> and \<open>4242\<close>.\<close>

theorem get_output_lines_witness:
  "fst (get_output quiet (fst (snd after_good_run)) (snd (snd after_good_run))) =
     Inr (''hello'' @ [NL])
   \<and> split_nl (''hello'' @ [NL]) = [''hello'', []]
   \<and> ''4242'' @ NL # ''hello'' @ [NL] = stdout pid_result
   \<and> fst (get_output quiet (fst (snd after_bare_run)) (snd (snd after_bare_run))) = Inr []
   \<and> hd (split_nl (stdout bare_result)) = stdout bare_result"
proof -
  have a: "result (fst (snd after_good_run)) = Some pid_result"
    by (simp add: after_good_run_eval)
  have b: "result (fst (snd after_bare_run)) = Some bare_result"
    by (simp add: after_bare_run_eval)
  have n1: "NL \<in> set (stdout pid_result)" by (simp add: pid_result_def)
  have n2: "NL \<notin> set (stdout bare_result)" by (simp add: bare_result_def)
  from get_output_lines [OF a, of quiet "snd (snd after_good_run)"] n1
       get_output_lines [OF b, of quiet "snd (snd after_bare_run)"] n2
  show ?thesis
    by (simp add: sample_lines) (simp add: pid_result_def)
qed

subsection \<open>C3: which exception \<open>run\<close> raises\<close>

text \<open>
  C3. When the session reports the non-zero exit of the wrapper invocation by
  raising \<open>UnexpectedExit\<close>, \<open>run\<close> raises that exception itself and no
  \<open>RemoteCommandException\<close>, and stores no result; \<open>terminate\<close> turns the same
  exception of the kill into a \<open>RemoteCommandException\<close>. For the other replies
  lemma \<open>run_outcome\<close> gives the exception of \<open>run\<close>.
\<close>

theorem run_lets_unexpected_exit_through:
  "fst after_unexpected_exit = Inl (Uncaught (UnexpectedExit ''bad exit code: 2''))
   \<and> result (fst (snd after_unexpected_exit)) = None
   \<and> fst (terminate quiet (fst (snd after_run_kill_exits)) (snd (snd after_run_kill_exits))) =
       Inl (RemoteCommandException ''bad exit code: 1'' None)"
proof -
  have r: "result (fst (snd after_run_kill_exits)) = Some pid_result"
    by (simp add: after_run_kill_exits_eval)
  have p: "fst (get_pid quiet (fst (snd after_run_kill_exits)) (snd (snd after_run_kill_exits)))
             = Inr 4242"
    by (simp add: get_pid_stored [OF r] sample_lines sample_ints)
  have t: "fst (terminate quiet (fst (snd after_run_kill_exits)) (snd (snd after_run_kill_exits)))
             = Inl (RemoteCommandException ''bad exit code: 1'' None)"
    unfolding terminate_with_pid(1) [OF r p]
    by (simp add: after_run_kill_exits_eval scripted_respond sample_ints quiet_def)
  show ?thesis
    using t by (simp add: after_unexpected_exit_eval fresh_simps)
qed

subsection \<open>C4: the accessors before a successful run\<close>

text \<open>
  C4, as stated, fails after a run that raised on a non-success status: the
  accessors return the PID, the output and the exit code of the failed run.
\<close>

theorem failed_run_accessors_return:
  "fst after_failed_run = Inl (RemoteCommandException ''boom'' None)
   \<and> fst (get_pid quiet (fst (snd after_failed_run)) (snd (snd after_failed_run))) = Inr 4242
   \<and> fst (get_output quiet (fst (snd after_failed_run)) (snd (snd after_failed_run))) = Inr []
   \<and> fst (get_exit_code quiet (fst (snd after_failed_run)) (snd (snd after_failed_run))) = Inr 3"
proof -
  have r: "result (fst (snd after_failed_run)) = Some failed_result"
    by (simp add: after_failed_run_eval)
  show ?thesis
    by (simp add: after_failed_run_eval(1) get_pid_stored [OF r] get_output_stored [OF r]
        get_exit_code_stored [OF r] sample_lines sample_ints)
       (simp add: failed_result_def)
qed

text \<open>
  C4, amended. A new object stores no result, a run that ends in an exception of
  the session leaves it so, and while no result is stored \<open>get_pid\<close>,
  \<open>get_output\<close> and \<open>get_exit_code\<close> raise \<open>AttributeError\<close>, return no value and
  change neither the object nor the world.
\<close>

theorem accessors_without_result:
  "result (fst (RemoteCommand fl c h u p w0)) = None
   \<and> (result self = None \<longrightarrow>
        respond w (sent w) (client self, command self @ '' & echo $!'', True) = Raises f \<longrightarrow>
        result (fst (snd (run fl self w))) = None)
   \<and> (result self = None \<longrightarrow>
        get_pid fl self w = (Inl AttributeError, self, w)
        \<and> get_output fl self w = (Inl AttributeError, self, w)
        \<and> get_exit_code fl self w = (Inl AttributeError, self, w))"
proof (intro conjI impI)
  show "result (fst (RemoteCommand fl c h u p w0)) = None"
    by (simp add: RemoteCommand_def Let_def)
next
  assume "result self = None"
    and "respond w (sent w) (client self, command self @ '' & echo $!'', True) = Raises f"
  then show "result (fst (snd (run fl self w))) = None"
    by (simp add: run_result)
qed (simp_all add: no_result_accessors)

text \<open>C4, amended, at a new object and a session that raises \<open>SSHException\<close>.\<close>

theorem accessors_without_result_witness:
  "result fresh = None
   \<and> result (fst (snd (run quiet fresh
         (scripted (Raises (SSHException ''timed out'')) (Returns kill_ok))))) = None
   \<and> fst (get_pid quiet fresh (scripted (Returns pid_result) (Returns kill_ok))) =
       Inl AttributeError
   \<and> fst (get_output quiet fresh (scripted (Returns pid_result) (Returns kill_ok))) =
       Inl AttributeError
   \<and> fst (get_exit_code quiet fresh (scripted (Returns pid_result) (Returns kill_ok))) =
       Inl AttributeError"
  using accessors_without_result [of quiet "''sleep 5''" "''10.0.0.1''" "''john''" None
      "scripted (Returns pid_result) (Returns kill_ok)" fresh
      "scripted (Raises (SSHException ''timed out'')) (Returns kill_ok)"
      "SSHException ''timed out''"]
    accessors_without_result [of quiet "''sleep 5''" "''10.0.0.1''" "''john''" None
      "scripted (Returns pid_result) (Returns kill_ok)" fresh
      "scripted (Returns pid_result) (Returns kill_ok)"
      "SSHException ''timed out''"]
  by (simp add: fresh_simps scripted_respond)

subsection \<open>C5: \<open>terminate\<close> before a successful run\<close>

text \<open>
  C5. On a new object \<open>terminate\<close> does fail, but with \<open>AttributeError\<close>, raised by
  the PID lookup on the missing result, and not with \<open>RemoteCommandException\<close>, the
  exception its docstring names for a command that cannot be terminated. After a
  run that raised on a non-success status no run has succeeded either, and there
  \<open>terminate\<close> does not fail at all: it sends \<open>kill 4242\<close> and returns.
\<close>

theorem terminate_unrun_not_termination_error:
  "fst (terminate quiet fresh (scripted (Returns pid_result) (Returns kill_ok))) =
     Inl AttributeError
   \<and> fst after_failed_run = Inl (RemoteCommandException ''boom'' None)
   \<and> fst (terminate quiet (fst (snd after_failed_run)) (snd (snd after_failed_run))) = Inr ()
   \<and> sent (snd (snd (terminate quiet (fst (snd after_failed_run)) (snd (snd after_failed_run)))))
       = [(client fresh, ''sleep 5 & echo $!'', True), (client fresh, ''kill 4242'', True)]"
proof -
  have a: "fst (terminate quiet fresh (scripted (Returns pid_result) (Returns kill_ok))) =
     Inl AttributeError"
    by (simp add: terminate_no_pid [of quiet fresh _ AttributeError]
        no_result_accessors(1) fresh_simps)
  have r: "result (fst (snd after_failed_run)) = Some failed_result"
    by (simp add: after_failed_run_eval)
  have p: "fst (get_pid quiet (fst (snd after_failed_run)) (snd (snd after_failed_run)))
             = Inr 4242"
    by (simp add: get_pid_stored [OF r] sample_lines sample_ints)
  have t: "fst (terminate quiet (fst (snd after_failed_run)) (snd (snd after_failed_run))) = Inr ()"
    unfolding terminate_with_pid(1) [OF r p]
    by (simp add: after_failed_run_eval scripted_respond sample_ints quiet_def kill_ok_def)
  have s: "sent (snd (snd (terminate quiet (fst (snd after_failed_run)) (snd (snd after_failed_run)))))
       = [(client fresh, ''sleep 5 & echo $!'', True), (client fresh, ''kill 4242'', True)]"
    unfolding terminate_with_pid(3) [OF r p]
    by (simp add: after_failed_run_eval sample_ints)
  from a t s show ?thesis by (simp add: after_failed_run_eval(1))
qed

subsection \<open>C6: the message of a failed kill\<close>

text \<open>
  C6, as stated, fails when the session reports the failed kill by raising
  \<open>UnexpectedExit\<close>: after a successful run whose standard error is \<open>no tty\<close>,
  \<open>terminate\<close> sends the kill and raises \<open>RemoteCommandException\<close> with the text of
  that exception, which is the kill's own, and stores no kill result.
\<close>

theorem kill_exit_reports_kill_text:
  "fst after_run_kill_raises = Inr ()
   \<and> stderr pid_result = ''no tty''
   \<and> sent (snd (snd (terminate quiet (fst (snd after_run_kill_raises))
                        (snd (snd after_run_kill_raises))))) =
       [(client fresh, ''sleep 5 & echo $!'', True), (client fresh, ''kill 4242'', True)]
   \<and> fst (terminate quiet (fst (snd after_run_kill_raises)) (snd (snd after_run_kill_raises))) =
       Inl (RemoteCommandException ''kill 4242: exit 1: No such process'' None)
   \<and> kill (fst (snd (terminate quiet (fst (snd after_run_kill_raises))
                        (snd (snd after_run_kill_raises))))) = None"
proof -
  have r: "result (fst (snd after_run_kill_raises)) = Some pid_result"
    by (simp add: after_run_kill_raises_eval)
  have p: "fst (get_pid quiet (fst (snd after_run_kill_raises)) (snd (snd after_run_kill_raises)))
             = Inr 4242"
    by (simp add: get_pid_stored [OF r] sample_lines sample_ints)
  have t: "fst (terminate quiet (fst (snd after_run_kill_raises)) (snd (snd after_run_kill_raises)))
             = Inl (RemoteCommandException ''kill 4242: exit 1: No such process'' None)"
    unfolding terminate_with_pid(1) [OF r p]
    by (simp add: after_run_kill_raises_eval scripted_respond sample_ints quiet_def)
  have k: "kill (fst (snd (terminate quiet (fst (snd after_run_kill_raises))
                             (snd (snd after_run_kill_raises))))) = None"
    unfolding terminate_with_pid(2) [OF r p]
    by (simp add: after_run_kill_raises_eval scripted_respond sample_ints fresh_simps)
  have s: "sent (snd (snd (terminate quiet (fst (snd after_run_kill_raises))
                             (snd (snd after_run_kill_raises))))) =
       [(client fresh, ''sleep 5 & echo $!'', True), (client fresh, ''kill 4242'', True)]"
    unfolding terminate_with_pid(3) [OF r p]
    by (simp add: after_run_kill_raises_eval sample_ints)
  have e: "stderr pid_result = ''no tty''" by (simp add: pid_result_def)
  from t k s e show ?thesis by (simp add: after_run_kill_raises_eval(1))
qed

text \<open>
  C6, amended. When a result \<open>r\<close> is stored and \<open>get_pid\<close> gives a PID, \<open>terminate\<close>
  sends the kill. If the session returns a kill result \<open>k\<close> that is not \<open>ok\<close>,
  \<open>terminate\<close> raises \<open>RemoteCommandException\<close> with the standard-error text of \<open>r\<close>,
  the run, whatever the standard-error text of \<open>k\<close> is, and \<open>k\<close> is stored in
  \<open>kill\<close>. If the session raises \<open>SSHException\<close> or \<open>UnexpectedExit\<close> for the kill,
  \<open>terminate\<close> raises \<open>RemoteCommandException\<close> with the text of that exception,
  keeps it as context under \<open>debug\<close> only, and leaves \<open>kill\<close> as it was.
\<close>

theorem kill_failure_message:
  assumes "result self = Some r"
    and "fst (get_pid fl self w) = Inr pid"
  shows "sent (snd (snd (terminate fl self w))) =
        sent w @ [(client self, ''kill '' @ py_str pid, True)]
    \<and> (respond w (sent w) (client self, ''kill '' @ py_str pid, True) = Returns k \<longrightarrow>
         \<not> ok k \<longrightarrow>
         fst (terminate fl self w) = Inl (RemoteCommandException (stderr r) None)
         \<and> kill (fst (snd (terminate fl self w))) = Some k)
    \<and> (respond w (sent w) (client self, ''kill '' @ py_str pid, True) = Raises f \<longrightarrow>
         fst (terminate fl self w) =
           Inl (RemoteCommandException (fault_str f) (if debug fl then Some f else None))
         \<and> kill (fst (snd (terminate fl self w))) = kill self)"
proof (intro conjI impI)
  show "sent (snd (snd (terminate fl self w))) =
        sent w @ [(client self, ''kill '' @ py_str pid, True)]"
    by (rule terminate_with_pid(3) [OF assms])
next
  assume "respond w (sent w) (client self, ''kill '' @ py_str pid, True) = Returns k"
    and "\<not> ok k"
  then show "fst (terminate fl self w) = Inl (RemoteCommandException (stderr r) None)"
    by (simp add: terminate_with_pid(1) [OF assms])
next
  assume "respond w (sent w) (client self, ''kill '' @ py_str pid, True) = Returns k"
  then show "kill (fst (snd (terminate fl self w))) = Some k"
    by (simp add: terminate_with_pid(2) [OF assms])
next
  assume "respond w (sent w) (client self, ''kill '' @ py_str pid, True) = Raises f"
  then show "fst (terminate fl self w) =
           Inl (RemoteCommandException (fault_str f) (if debug fl then Some f else None))"
    by (simp add: terminate_with_pid(1) [OF assms])
next
  assume "respond w (sent w) (client self, ''kill '' @ py_str pid, True) = Raises f"
  then show "kill (fst (snd (terminate fl self w))) = kill self"
    by (simp add: terminate_with_pid(2) [OF assms])
qed

text \<open>
  C6, amended, at a run whose standard error is \<open>no tty\<close>: once with a kill result
  that is not \<open>ok\<close> and whose standard error is \<open>No such process\<close>, once with a
  kill for which the session raises \<open>UnexpectedExit\<close>.
\<close>

theorem kill_failure_message_witness:
  "fst (terminate quiet (fst (snd after_run_kill_fails)) (snd (snd after_run_kill_fails))) =
     Inl (RemoteCommandException ''no tty'' None)
   \<and> kill (fst (snd (terminate quiet (fst (snd after_run_kill_fails))
                        (snd (snd after_run_kill_fails))))) = Some kill_failed
   \<and> stderr kill_failed = ''No such process''
   \<and> fst (terminate quiet (fst (snd after_run_kill_raises)) (snd (snd after_run_kill_raises))) =
       Inl (RemoteCommandException ''kill 4242: exit 1: No such process'' None)
   \<and> kill (fst (snd (terminate quiet (fst (snd after_run_kill_raises))
                        (snd (snd after_run_kill_raises))))) = None"
proof -
  have r1: "result (fst (snd after_run_kill_fails)) = Some pid_result"
    by (simp add: after_run_kill_fails_eval)
  have p1: "fst (get_pid quiet (fst (snd after_run_kill_fails)) (snd (snd after_run_kill_fails)))
             = Inr 4242"
    by (simp add: get_pid_stored [OF r1] sample_lines sample_ints)
  have k1: "respond (snd (snd after_run_kill_fails)) (sent (snd (snd after_run_kill_fails)))
             (client (fst (snd after_run_kill_fails)), ''kill '' @ py_str 4242, True)
           = Returns kill_failed"
    by (simp add: after_run_kill_fails_eval scripted_respond sample_ints)
  have n1: "\<not> ok kill_failed" by (simp add: kill_failed_def)
  have r2: "result (fst (snd after_run_kill_raises)) = Some pid_result"
    by (simp add: after_run_kill_raises_eval)
  have p2: "fst (get_pid quiet (fst (snd after_run_kill_raises)) (snd (snd after_run_kill_raises)))
             = Inr 4242"
    by (simp add: get_pid_stored [OF r2] sample_lines sample_ints)
  have k2: "respond (snd (snd after_run_kill_raises)) (sent (snd (snd after_run_kill_raises)))
             (client (fst (snd after_run_kill_raises)), ''kill '' @ py_str 4242, True)
           = Raises (UnexpectedExit ''kill 4242: exit 1: No such process'')"
    by (simp add: after_run_kill_raises_eval scripted_respond sample_ints)
  have d: "\<not> debug quiet" by (simp add: quiet_def)
  have o: "kill (fst (snd after_run_kill_raises)) = None"
    by (simp add: after_run_kill_raises_eval fresh_simps)
  from kill_failure_message [OF r1 p1, of kill_failed] k1 n1
  have a: "fst (terminate quiet (fst (snd after_run_kill_fails)) (snd (snd after_run_kill_fails)))
             = Inl (RemoteCommandException (stderr pid_result) None)
           \<and> kill (fst (snd (terminate quiet (fst (snd after_run_kill_fails))
                        (snd (snd after_run_kill_fails))))) = Some kill_failed"
    by blast
  from kill_failure_message
         [OF r2 p2, of _ "UnexpectedExit ''kill 4242: exit 1: No such process''"] k2
  have b: "fst (terminate quiet (fst (snd after_run_kill_raises)) (snd (snd after_run_kill_raises)))
             = Inl (RemoteCommandException
                      (fault_str (UnexpectedExit ''kill 4242: exit 1: No such process''))
                      (if debug quiet
                       then Some (UnexpectedExit ''kill 4242: exit 1: No such process'')
                       else None))
           \<and> kill (fst (snd (terminate quiet (fst (snd after_run_kill_raises))
                        (snd (snd after_run_kill_raises))))) = kill (fst (snd after_run_kill_raises))"
    by blast
  from a b d o show ?thesis
    by (simp add: pid_result_def kill_failed_def)
qed

subsection \<open>C7: which fields the methods assign\<close>

text \<open>
  C7. The constructor stores its four parameters as given. Whatever the flags, the
  object and the world, the object after \<open>run\<close> differs from the object before it
  in the field \<open>result\<close> at most, the object after \<open>terminate\<close> in the field
  \<open>kill\<close> at most, and \<open>get_pid\<close>, \<open>get_output\<close> and \<open>get_exit_code\<close> leave the
  object as it is. So \<open>command\<close>, \<open>ssh_host\<close>, \<open>ssh_user\<close>, \<open>ssh_password\<close> and
  \<open>client\<close> keep their values through every method.
\<close>

theorem fields_frame:
  "command (fst (RemoteCommand fl c h u p w)) = c
   \<and> ssh_host (fst (RemoteCommand fl c h u p w)) = h
   \<and> ssh_user (fst (RemoteCommand fl c h u p w)) = u
   \<and> ssh_password (fst (RemoteCommand fl c h u p w)) = p
   \<and> fst (snd (run fl self w)) = self\<lparr>result := result (fst (snd (run fl self w)))\<rparr>
   \<and> fst (snd (terminate fl self w)) = self\<lparr>kill := kill (fst (snd (terminate fl self w)))\<rparr>
   \<and> fst (snd (get_pid fl self w)) = self
   \<and> fst (snd (get_output fl self w)) = self
   \<and> fst (snd (get_exit_code fl self w)) = self"
proof -
  have init: "command (fst (RemoteCommand fl c h u p w)) = c
     \<and> ssh_host (fst (RemoteCommand fl c h u p w)) = h
     \<and> ssh_user (fst (RemoteCommand fl c h u p w)) = u
     \<and> ssh_password (fst (RemoteCommand fl c h u p w)) = p"
    by (simp add: RemoteCommand_def Let_def)
  have r: "fst (snd (run fl self w)) = self\<lparr>result := result (fst (snd (run fl self w)))\<rparr>"
    by (simp add: run_def client_run_def Let_def split: reply.splits fault.splits)
  have p: "fst (snd (get_pid fl self w)) = self"
    by (simp add: get_pid_def Let_def split: option.splits list.splits)
  have t: "fst (snd (terminate fl self w)) = self\<lparr>kill := kill (fst (snd (terminate fl self w)))\<rparr>"
  proof (cases "get_pid fl self w")
    case (fields res self0 w0)
    with p have s0: "self0 = self" by simp
    show ?thesis
    proof (cases res)
      case (Inl e)
      with fields s0 show ?thesis by (simp add: terminate_def)
    next
      case (Inr pid)
      with fields s0 show ?thesis
        by (simp add: terminate_def client_run_def Let_def str_plus_int_def
            split: reply.splits option.splits)
    qed
  qed
  have o: "fst (snd (get_output fl self w)) = self"
    by (simp add: get_output_def Let_def split: option.splits)
  have e: "fst (snd (get_exit_code fl self w)) = self"
    by (simp add: get_exit_code_def split: option.splits)
  from init r t p o e show ?thesis by blast
qed

subsection \<open>C8: the flags and the outcome of \<open>terminate\<close>\<close>

text \<open>
  C8. After a successful run and with a kill that succeeds, \<open>terminate\<close> returns
  under verbosity 0 and raises \<open>TypeError\<close> under verbosity 1 and 2: the final
  print adds the integer \<open>self.kill.return_code\<close> to a string.
\<close>

theorem terminate_verbose_type_error:
  "fst after_good_run = Inr ()
   \<and> fst (terminate (verbosity_flags 0) (fst (snd after_good_run)) (snd (snd after_good_run)))
       = Inr ()
   \<and> fst (terminate (verbosity_flags 1) (fst (snd after_good_run)) (snd (snd after_good_run)))
       = Inl TypeError
   \<and> fst (terminate (verbosity_flags 2) (fst (snd after_good_run)) (snd (snd after_good_run)))
       = Inl TypeError"
proof -
  have r: "result (fst (snd after_good_run)) = Some pid_result"
    by (simp add: after_good_run_eval)
  have p: "\<And>fl. fst (get_pid fl (fst (snd after_good_run)) (snd (snd after_good_run)))
             = Inr 4242"
    by (simp add: get_pid_stored [OF r] sample_lines sample_ints)
  have t: "\<And>fl. fst (terminate fl (fst (snd after_good_run)) (snd (snd after_good_run)))
             = (if print_statistic fl then Inl TypeError else Inr ())"
    unfolding terminate_with_pid(1) [OF r p]
    by (simp add: after_good_run_eval scripted_respond sample_ints kill_ok_def)
  show ?thesis
    by (simp add: t verbosity_flags_eval after_good_run_eval(1))
qed

subsection \<open>C9: a run that raises on a non-success status\<close>

text \<open>
  C9. When the session answers the wrapper invocation with a result \<open>r\<close> that is
  not \<open>ok\<close>, \<open>run\<close> raises \<open>RemoteCommandException\<close> with the standard-error text
  of \<open>r\<close>, and the object it leaves behind stores \<open>r\<close>: afterwards, under any flags
  and in any world, \<open>get_pid\<close> parses line 1 of the output of \<open>r\<close>, \<open>get_output\<close>
  returns its other lines and \<open>get_exit_code\<close> its return code; none of them
  raises \<open>AttributeError\<close>.
\<close>

theorem failed_run_stores_result:
  assumes "respond w (sent w) (client self, command self @ '' & echo $!'', True) = Returns r"
    and "\<not> ok r"
  shows "fst (run fl self w) = Inl (RemoteCommandException (stderr r) None)
    \<and> fst (snd (run fl self w)) = self\<lparr>result := Some r\<rparr>
    \<and> fst (get_pid fl' (fst (snd (run fl self w))) w') =
        (case py_int (hd (split_nl (stdout r))) of None \<Rightarrow> Inl ValueError | Some n \<Rightarrow> Inr n)
    \<and> fst (get_output fl' (fst (snd (run fl self w))) w') =
        Inr (join_nl (tl (split_nl (stdout r))))
    \<and> fst (get_exit_code fl' (fst (snd (run fl self w))) w') = Inr (return_code r)"
proof -
  have o: "fst (run fl self w) = Inl (RemoteCommandException (stderr r) None)"
    using assms by (simp add: run_outcome)
  have s: "fst (snd (run fl self w)) = self\<lparr>result := Some r\<rparr>"
    using assms
    by (simp add: run_def client_run_def Let_def narrate_sent narrate_respond)
  then have st: "result (fst (snd (run fl self w))) = Some r" by simp
  from o s get_pid_stored [OF st] get_output_stored [OF st] get_exit_code_stored [OF st]
  show ?thesis by simp
qed

text \<open>C9 at a reply with output \<open>4242\n\<close>, standard error \<open>boom\<close> and return code 3.\<close>

theorem failed_run_stores_result_witness:
  "fst after_failed_run = Inl (RemoteCommandException ''boom'' None)
   \<and> fst (snd after_failed_run) = fresh\<lparr>result := Some failed_result\<rparr>
   \<and> fst (get_pid chatty (fst (snd after_failed_run)) (snd (snd after_failed_run))) = Inr 4242
   \<and> fst (get_output chatty (fst (snd after_failed_run)) (snd (snd after_failed_run))) = Inr []
   \<and> fst (get_exit_code chatty (fst (snd after_failed_run)) (snd (snd after_failed_run))) = Inr 3"
proof -
  have a: "respond (scripted (Returns failed_result) (Returns kill_ok))
             (sent (scripted (Returns failed_result) (Returns kill_ok)))
             (client fresh, command fresh @ '' & echo $!'', True) = Returns failed_result"
    by (simp add: scripted_respond fresh_simps)
  have n: "\<not> ok failed_result" by (simp add: failed_result_def)
  have v: "py_int (hd (split_nl (stdout failed_result))) = Some 4242"
    "join_nl (tl (split_nl (stdout failed_result))) = []"
    "stderr failed_result = ''boom''" "return_code failed_result = 3"
    by (simp_all add: sample_lines sample_ints) (simp_all add: failed_result_def)
  have f: "fst after_failed_run = Inl (RemoteCommandException (stderr failed_result) None)
    \<and> fst (snd after_failed_run) = fresh\<lparr>result := Some failed_result\<rparr>
    \<and> fst (get_pid chatty (fst (snd after_failed_run)) (snd (snd after_failed_run))) =
        (case py_int (hd (split_nl (stdout failed_result))) of
           None \<Rightarrow> Inl ValueError | Some n \<Rightarrow> Inr n)
    \<and> fst (get_output chatty (fst (snd after_failed_run)) (snd (snd after_failed_run))) =
        Inr (join_nl (tl (split_nl (stdout failed_result))))
    \<and> fst (get_exit_code chatty (fst (snd after_failed_run)) (snd (snd after_failed_run))) =
        Inr (return_code failed_result)"
    unfolding after_failed_run_def
    by (rule failed_run_stores_result [OF a n])
  show ?thesis
    by (rule f [unfolded v option.case])
qed

subsection \<open>C10: a first line that is no integer\<close>

text \<open>
  C10. When the first line of the stored output is not accepted by \<open>int\<close>,
  \<open>get_pid\<close> raises \<open>ValueError\<close>, and \<open>terminate\<close> raises \<open>ValueError\<close> too, leaves
  the object as it is and sends nothing to the session.
\<close>

theorem bad_pid_line_stops_terminate:
  assumes "result self = Some r" and "py_int (hd (split_nl (stdout r))) = None"
  shows "fst (get_pid fl self w) = Inl ValueError
    \<and> fst (terminate fl self w) = Inl ValueError
    \<and> fst (snd (terminate fl self w)) = self
    \<and> sent (snd (snd (terminate fl self w))) = sent w"
proof -
  have p: "fst (get_pid fl self w) = Inl ValueError"
    using assms by (simp add: get_pid_stored)
  from terminate_no_pid [OF p] p show ?thesis
    by (simp add: get_pid_world)
qed

text \<open>C10 at the stored output \<open>hello\n4242\n\<close>.\<close>

theorem bad_pid_line_stops_terminate_witness:
  "py_int (hd (split_nl (stdout banner_result))) = None
   \<and> fst (get_pid quiet (fst (snd after_compound_run)) (snd (snd after_compound_run))) =
       Inl ValueError
   \<and> fst (terminate quiet (fst (snd after_compound_run)) (snd (snd after_compound_run))) =
       Inl ValueError
   \<and> sent (snd (snd (terminate quiet (fst (snd after_compound_run))
                        (snd (snd after_compound_run))))) =
       [(client compound, ''echo hello; sleep 5 & echo $!'', True)]"
proof -
  have r: "result (fst (snd after_compound_run)) = Some banner_result"
    by (simp add: after_compound_run_eval)
  have n: "py_int (hd (split_nl (stdout banner_result))) = None"
    by (simp add: sample_lines sample_ints)
  from bad_pid_line_stops_terminate [OF r n, of quiet "snd (snd after_compound_run)"] n
  show ?thesis by (simp add: after_compound_run_eval)
qed

end
